theory Spec2Isabelle
  imports Complex_Main
begin

section \<open>GraphFM: a shallow embedding of graphfm.py\<close>

text \<open>
  Tensors are modelled over the real numbers: a vector is a list of reals, the field axis
  of one sample is a list of vectors, and a batch is a list of samples. TensorFlow and
  NumPy operations are given their documented mathematical meaning. Sizes (batch size,
  field count, widths, head count, k) are natural numbers. Every exception the Python
  raises along a modelled path is a value of \<open>error\<close>, returned on the left of a sum.
\<close>

datatype error = InvalidArgument | ValueError | TypeError | IndexError | ZeroDivisionError

subsection \<open>Batching and prediction (\<open>get_batch\<close>, \<open>predict\<close>, \<open>evaluate\<close>)\<close>

text \<open>Python's \<open>xs[s:e]\<close> for non-negative bounds: empty when \<open>e \<le> s\<close>, cut at the end of the list.\<close>

definition py_slice :: "'a list \<Rightarrow> nat \<Rightarrow> nat \<Rightarrow> 'a list" where
  "py_slice xs s e = take (e - s) (drop s xs)"

definition get_batch ::
  "'a list \<Rightarrow> 'b list \<Rightarrow> 'c list \<Rightarrow> nat \<Rightarrow> nat \<Rightarrow> 'a list \<times> 'b list \<times> 'c list list" where
  "get_batch Xi Xv y batch_size index =
     (let start = index * batch_size;
          end0 = (index + 1) * batch_size;
          end1 = (if end0 < length y then end0 else length y)
      in (py_slice Xi start end1, py_slice Xv start end1,
          map (\<lambda>v. [v]) (py_slice y start end1)))"

text \<open>
  \<open>predict\<close>: the session call \<open>self.sess.run(self.out, feed_dict)\<close> is the parameter
  \<open>run\<close>, which receives the index and value rows of one batch and returns the output
  column, or raises. \<open>np.reshape(batch_out, (num_batch,))\<close> raises \<open>ValueError\<close> when the
  session returned a different number of entries. The result \<open>None\<close> of the Python is the
  value \<open>None\<close> here. The loop state is the batch index and \<open>y_pred\<close>; the batch of an
  iteration is \<open>get_batch\<close> at that index, as in the source, where it is fetched before the
  loop and again at the end of each iteration.
\<close>

definition np_concatenate :: "real list option \<Rightarrow> real list \<Rightarrow> error + real list" where
  "np_concatenate y_pred ys = (case y_pred of None \<Rightarrow> Inl ValueError | Some zs \<Rightarrow> Inr (zs @ ys))"

function predict_loop ::
  "('i list \<Rightarrow> 'v list \<Rightarrow> error + real list) \<Rightarrow> 'i list \<Rightarrow> 'v list \<Rightarrow> int list \<Rightarrow> nat \<Rightarrow> nat
     \<Rightarrow> real list option \<Rightarrow> error + real list option" where
  "predict_loop run Xi Xv dummy_y batch_size batch_index y_pred =
     (case get_batch Xi Xv dummy_y batch_size batch_index of
        (Xi_batch, Xv_batch, y_batch) \<Rightarrow>
          if length Xi_batch > 0 then
            (case run Xi_batch Xv_batch of
               Inl e \<Rightarrow> Inl e
             | Inr batch_out \<Rightarrow>
                 if length batch_out \<noteq> length y_batch then Inl ValueError
                 else if batch_index = 0 then
                   predict_loop run Xi Xv dummy_y batch_size (batch_index + 1) (Some batch_out)
                 else
                   (case np_concatenate y_pred batch_out of
                      Inl e \<Rightarrow> Inl e
                    | Inr ys \<Rightarrow>
                        predict_loop run Xi Xv dummy_y batch_size (batch_index + 1) (Some ys)))
          else Inr y_pred)"
  by pat_completeness auto
termination
proof (relation "measure (\<lambda>(run, Xi, Xv, dummy_y, batch_size, batch_index, y_pred).
                   length Xi - batch_index * batch_size)", goal_cases)
  case 1
  show ?case by simp
next
  case 2
  then show ?case
    by (auto simp: get_batch_def py_slice_def Let_def
             simp flip: length_greater_0_conv split: if_splits)
next
  case 3
  then show ?case
    by (auto simp: get_batch_def py_slice_def Let_def
             simp flip: length_greater_0_conv split: if_splits)
qed

declare predict_loop.simps [simp del]

definition predict ::
  "('i list \<Rightarrow> 'v list \<Rightarrow> error + real list) \<Rightarrow> 'i list \<Rightarrow> 'v list \<Rightarrow> nat
     \<Rightarrow> error + real list option" where
  "predict run Xi Xv batch_size =
     (let dummy_y = replicate (length Xi) (1::int)
      in predict_loop run Xi Xv dummy_y batch_size 0 None)"

text \<open>
  \<open>evaluate\<close>: \<open>np.clip(y_pred, 1e-6, 1 - 1e-6)\<close> is the elementwise
  \<open>min (max x lo) hi\<close>; applied to \<open>None\<close> it raises \<open>TypeError\<close>. The two metrics
  (\<open>self.eval_metric = roc_auc_score\<close> and \<open>log_loss\<close> of scikit-learn) are parameters that
  receive the labels and the clipped predictions and may raise; the tuple is built left to
  right, so the metric runs before the log-loss.
\<close>

definition np_clip :: "real list \<Rightarrow> real \<Rightarrow> real \<Rightarrow> real list" where
  "np_clip xs lo hi = map (\<lambda>x. min (max x lo) hi) xs"

definition evaluate ::
  "('y list \<Rightarrow> real list \<Rightarrow> error + real) \<Rightarrow> ('y list \<Rightarrow> real list \<Rightarrow> error + real)
     \<Rightarrow> ('i list \<Rightarrow> 'v list \<Rightarrow> error + real list) \<Rightarrow> 'i list \<Rightarrow> 'v list \<Rightarrow> 'y list \<Rightarrow> nat
     \<Rightarrow> error + real \<times> real" where
  "evaluate eval_metric log_loss run Xi Xv y batch_size =
     (case predict run Xi Xv batch_size of
        Inl e \<Rightarrow> Inl e
      | Inr None \<Rightarrow> Inl TypeError
      | Inr (Some y_pred0) \<Rightarrow>
          (let y_pred = np_clip y_pred0 (1 / 10 ^ 6) (1 - 1 / 10 ^ 6)
           in case eval_metric y y_pred of
                Inl e \<Rightarrow> Inl e
              | Inr result \<Rightarrow>
                  (case log_loss y y_pred of
                     Inl e \<Rightarrow> Inl e
                   | Inr loss \<Rightarrow> Inr (result, loss))))"

subsection \<open>Early stopping (\<open>training_termination\<close>, \<open>fit_once\<close>)\<close>

text \<open>Python's \<open>xs[-i]\<close> for \<open>1 \<le> i \<le> len(xs)\<close>; it is only used under the guard \<open>len(xs) > 5\<close>.\<close>

definition from_end :: "'a list \<Rightarrow> nat \<Rightarrow> 'a" where
  "from_end xs i = xs ! (length xs - i)"

definition training_termination :: "bool \<Rightarrow> real list \<Rightarrow> bool" where
  "training_termination greater_is_better valid_result =
     (if length valid_result > 5 then
        (if greater_is_better then
           (if from_end valid_result 1 < from_end valid_result 2 \<and>
               from_end valid_result 2 < from_end valid_result 3 \<and>
               from_end valid_result 3 < from_end valid_result 4 \<and>
               from_end valid_result 4 < from_end valid_result 5
            then True else False)
         else
           (if from_end valid_result 1 > from_end valid_result 2 \<and>
               from_end valid_result 2 > from_end valid_result 3 \<and>
               from_end valid_result 3 > from_end valid_result 4 \<and>
               from_end valid_result 4 > from_end valid_result 5
            then True else False))
      else False)"

text \<open>
  The attributes of \<open>self\<close> that \<open>fit_once\<close> reads and writes. \<open>sess\<close> is the state of the
  TensorFlow session (the variables and the global step); \<open>checkpoints\<close> collects what
  \<open>self.saver.save\<close> wrote, with the step it was given.
\<close>

record 'w graphfm =
  sess :: 'w
  batch_size :: nat
  is_save :: bool
  greater_is_better :: bool
  best_loss :: real
  train_result :: "real list"
  valid_result :: "real list"
  train_loss :: "real list"
  valid_loss :: "real list"
  checkpoints :: "('w \<times> nat) list"

text \<open>
  What \<open>fit_once\<close> calls outside the class: the session (\<open>run_out\<close> for \<open>self.out\<close>,
  \<open>run_step\<close> for one optimizer step of \<open>fit_on_batch\<close>, which returns the new session
  state, the global step and the loss), the two metrics, and the permutation that
  \<open>np.random.shuffle\<close> draws for a list of a given length (the same one for the three lists,
  since the generator state is restored before each shuffle).
\<close>

record ('w, 'i, 'v) env =
  run_out :: "'w \<Rightarrow> 'i list \<Rightarrow> 'v list \<Rightarrow> error + real list"
  run_step :: "'w \<Rightarrow> 'i list \<Rightarrow> 'v list \<Rightarrow> real list list \<Rightarrow> error + 'w \<times> nat \<times> real"
  eval_metric :: "real list \<Rightarrow> real list \<Rightarrow> error + real"
  log_loss :: "real list \<Rightarrow> real list \<Rightarrow> error + real"
  shuffle_perm :: "nat \<Rightarrow> nat list"




text \<open>
  Vocabulary for the properties of \<open>predict\<close>: the \<open>j\<close>-th batch of a list (the rows
  \<open>get_batch\<close> cuts out for index \<open>j\<close> when the labels have length \<open>n\<close>), the number of
  non-empty batches, the session's output on the \<open>j\<close>-th batch, and the contract that the
  session returns one output per sample of every batch it is fed.
\<close>

definition batch_rows :: "nat \<Rightarrow> nat \<Rightarrow> nat \<Rightarrow> 'a list \<Rightarrow> 'a list" where
  "batch_rows n bs j xs = py_slice xs (j * bs) (min ((j + 1) * bs) n)"

definition num_batches :: "nat \<Rightarrow> nat \<Rightarrow> nat" where
  "num_batches n bs = (n + bs - 1) div bs"

definition session_ok ::
  "('i list \<Rightarrow> 'v list \<Rightarrow> error + real list) \<Rightarrow> 'i list \<Rightarrow> 'v list \<Rightarrow> nat \<Rightarrow> bool" where
  "session_ok run Xi Xv bs =
     (\<forall>j < num_batches (length Xi) bs.
        \<exists>ys. run (batch_rows (length Xi) bs j Xi) (batch_rows (length Xi) bs j Xv) = Inr ys \<and>
             length ys = length (batch_rows (length Xi) bs j Xi))"

definition batch_outputs ::
  "('i list \<Rightarrow> 'v list \<Rightarrow> error + real list) \<Rightarrow> 'i list \<Rightarrow> 'v list \<Rightarrow> nat \<Rightarrow> nat \<Rightarrow> real list" where
  "batch_outputs run Xi Xv bs j =
     projr (run (batch_rows (length Xi) bs j Xi) (batch_rows (length Xi) bs j Xv))"



subsection \<open>Tensor operations of the graph\<close>

text \<open>
  The dense layers, the selector, the attention and the layer normalisation below act on
  one sample; the functions that take a whole batch say so. In inference (\<open>train_phase\<close>
  false, every keep probability 1, as \<open>predict\<close> feeds them) dropout is the identity and is
  left out.
\<close>

definition relu :: "real \<Rightarrow> real" where
  "relu x = max x 0"

definition sigmoid :: "real \<Rightarrow> real" where
  "sigmoid x = 1 / (1 + exp (- x))"

text \<open>
  The variables that \<open>tf.layers.dense\<close> and \<open>normalize\<close> create inside \<open>gat_attention\<close>.
  A dense layer is named as in the source: \<open>att_b%d_f%d % (block, 0)\<close>,
  \<open>w_b%d_f%d % (block, field)\<close>, \<open>res_b%d_f%d % (block, field)\<close>, \<open>gsl_1_b%d % block\<close> and
  \<open>gsl_2_b%d % block\<close>; two calls with the same name share the variable (the scopes are
  reused for \<open>field > 0\<close>). A kernel is indexed by input and output channel, so a layer
  produces exactly \<open>units\<close> outputs whatever the width of its input.
\<close>

datatype var_name =
  Att_b_f nat nat | W_b_f nat nat | Res_b_f nat nat | Gsl_1_b nat | Gsl_2_b nat

record layer_vars =
  dense_kernel :: "var_name \<Rightarrow> nat \<Rightarrow> nat \<Rightarrow> real"
  dense_bias :: "var_name \<Rightarrow> nat \<Rightarrow> real"
  ln_gamma :: "nat \<Rightarrow> nat \<Rightarrow> nat \<Rightarrow> real"
  ln_beta :: "nat \<Rightarrow> nat \<Rightarrow> nat \<Rightarrow> real"

definition dense ::
  "layer_vars \<Rightarrow> var_name \<Rightarrow> nat \<Rightarrow> (real \<Rightarrow> real) \<Rightarrow> bool \<Rightarrow> real list \<Rightarrow> real list" where
  "dense V name units activation use_bias x =
     map (\<lambda>j. activation ((\<Sum>i<length x. x ! i * dense_kernel V name i j) +
                           (if use_bias then dense_bias V name j else 0)))
         [0..<units]"

text \<open>\<open>normalize\<close>: \<open>tf.nn.moments\<close> over the last axis gives the mean and the population variance.\<close>

definition reduce_mean :: "real list \<Rightarrow> real" where
  "reduce_mean xs = sum_list xs / real (length xs)"

definition moments :: "real list \<Rightarrow> real \<times> real" where
  "moments xs =
     (let mean = reduce_mean xs
      in (mean, reduce_mean (map (\<lambda>x. (x - mean) ^ 2) xs)))"

definition normalized :: "real list \<Rightarrow> real \<Rightarrow> real list" where
  "normalized inputs epsilon =
     (case moments inputs of
        (mean, variance) \<Rightarrow> map (\<lambda>x. (x - mean) / ((variance + epsilon) powr (1 / 2))) inputs)"

definition normalize :: "(nat \<Rightarrow> real) \<Rightarrow> (nat \<Rightarrow> real) \<Rightarrow> real list \<Rightarrow> real \<Rightarrow> real list" where
  "normalize gamma beta inputs epsilon =
     map (\<lambda>j. gamma j * (normalized inputs epsilon ! j) + beta j) [0..<length inputs]"

definition softmax :: "real list \<Rightarrow> real list" where
  "softmax xs = map (\<lambda>x. exp x / sum_list (map exp xs)) xs"

text \<open>
  The graph-structure selector. \<open>tf.nn.top_k\<close> returns the \<open>k\<close> largest entries in
  descending order and fails when \<open>k\<close> exceeds the number of entries; \<open>tf.reduce_min\<close> of no
  entries (\<open>k = 0\<close>) is the largest float, which no score reaches, so the mask is then zero
  everywhere.
\<close>

definition top_k :: "real list \<Rightarrow> nat \<Rightarrow> error + real list" where
  "top_k S k = (if k > length S then Inl InvalidArgument else Inr (take k (rev (sort S))))"

definition topk_mask :: "real list \<Rightarrow> real list \<Rightarrow> real list" where
  "topk_mask S vals = map (\<lambda>s. if vals \<noteq> [] \<and> s \<ge> Min (set vals) then 1 else 0) S"

definition gsl_select :: "real list \<Rightarrow> nat \<Rightarrow> error + real list" where
  "gsl_select S k =
     (case top_k S k of
        Inl e \<Rightarrow> Inl e
      | Inr vals \<Rightarrow> Inr (map2 (\<lambda>s t. s * t) S (topk_mask S vals)))"

definition gsl_scores :: "layer_vars \<Rightarrow> nat \<Rightarrow> real list list \<Rightarrow> real list" where
  "gsl_scores V block vals =
     map (\<lambda>v. dense V (Gsl_2_b block) 1 sigmoid True
                (dense V (Gsl_1_b block) 16 relu True v) ! 0) vals"

text \<open>The first error of a list of results, or all the values.\<close>

fun sequence_r :: "(error + 'a) list \<Rightarrow> error + 'a list" where
  "sequence_r [] = Inr []"
| "sequence_r (x # xs) =
     (case x of
        Inl e \<Rightarrow> Inl e
      | Inr y \<Rightarrow> (case sequence_r xs of Inl e \<Rightarrow> Inl e | Inr ys \<Rightarrow> Inr (y # ys)))"

text \<open>
  The attention of one sample, given its masked scores \<open>S\<close>: per head \<open>h\<close> the logits are
  \<open>S * A[:, h]\<close>, the weights their softmax over the fields, and the output the weighted
  sum of the \<open>h\<close>-th slice of the value projection; the heads are concatenated, the
  residual projection of the query is added, then \<open>relu\<close> and \<open>normalize\<close>.
\<close>

definition attention_logits :: "real list \<Rightarrow> real list list \<Rightarrow> nat \<Rightarrow> real list" where
  "attention_logits S A h = map2 (\<lambda>s a. s * (a ! h)) S A"

definition attention_weights :: "layer_vars \<Rightarrow> nat \<Rightarrow> nat \<Rightarrow> real list list \<Rightarrow> real list \<Rightarrow> nat \<Rightarrow> real list" where
  "attention_weights V block num_heads vals S h =
     softmax (attention_logits S (map (dense V (Att_b_f block 0) num_heads relu True) vals) h)"

definition weighted_sum :: "real list \<Rightarrow> real list list \<Rightarrow> nat \<Rightarrow> real list" where
  "weighted_sum ws rows width =
     map (\<lambda>c. sum_list (map2 (\<lambda>w row. w * (row ! c)) ws rows)) [0..<width]"

definition attend ::
  "layer_vars \<Rightarrow> real list \<Rightarrow> real list list \<Rightarrow> real list \<Rightarrow> nat \<Rightarrow> nat \<Rightarrow> nat \<Rightarrow> nat \<Rightarrow> bool
     \<Rightarrow> real list" where
  "attend V query vals S num_units num_heads block field residual =
     (let H = map (dense V (W_b_f block field) num_units (\<lambda>x. x) False) vals;
          c = num_units div num_heads;
          outputs = concat (map (\<lambda>h. weighted_sum (attention_weights V block num_heads vals S h)
                                       (map (\<lambda>row. take c (drop (h * c) row)) H) c)
                                [0..<num_heads]);
          outputs1 = (if residual
                      then map2 (\<lambda>a b. a + b) outputs
                             (dense V (Res_b_f block field) num_units relu True query)
                      else outputs)
      in normalize (ln_gamma V block field) (ln_beta V block field)
           (map relu outputs1) (1 / 10 ^ 8))"

text \<open>
  \<open>gat_attention\<close> on a batch: \<open>queries\<close> holds one vector and \<open>vals\<close> one list of field
  vectors per sample. \<open>num_units = None\<close> reaches \<open>queries.get_shape().as_list[-1]\<close>, which
  subscripts a method. \<open>tf.split\<close> needs a positive head count that divides \<open>num_units\<close>.
  \<open>tf.squeeze\<close> is called without an axis on the \<open>[batch, field, 1]\<close> scores and removes
  every axis of size 1, not only the last: with one sample in the batch, or one field, the
  scores lose an axis and \<open>tf.tile(S, [num_heads, 1, 1])\<close> fails. The second result is
  \<open>vis\<close>, the masked scores of every sample.
\<close>

definition squeeze_keeps_rank :: "real list list list \<Rightarrow> bool" where
  "squeeze_keeps_rank vals = (length vals \<noteq> 1 \<and> (\<forall>v \<in> set vals. length v \<noteq> 1))"

definition gat_attention ::
  "layer_vars \<Rightarrow> real list list \<Rightarrow> real list list list \<Rightarrow> nat option \<Rightarrow> nat \<Rightarrow> nat \<Rightarrow> nat \<Rightarrow> nat
     \<Rightarrow> bool \<Rightarrow> error + real list list \<times> real list list" where
  "gat_attention V queries vals num_units_opt num_heads k block field residual =
     (case num_units_opt of
        None \<Rightarrow> Inl TypeError
      | Some num_units \<Rightarrow>
          if num_heads = 0 \<or> num_units mod num_heads \<noteq> 0 then Inl InvalidArgument
          else if \<not> squeeze_keeps_rank vals then Inl InvalidArgument
          else
            (case sequence_r (map (\<lambda>v. gsl_select (gsl_scores V block v) k) vals) of
               Inl e \<Rightarrow> Inl e
             | Inr S \<Rightarrow>
                 Inr (map (\<lambda>(q, v, s). attend V q v s num_units num_heads block field residual)
                        (zip queries (zip vals S)),
                      S)))"

subsection \<open>The model graph (\<open>_initialize_weights\<close>, \<open>_init_graph\<close>)\<close>

text \<open>The arguments that \<open>__init__\<close> stores and the graph reads.\<close>

record config =
  feature_size :: nat
  field_size :: nat
  embedding_size :: nat
  blocks :: nat
  heads :: nat
  block_shape :: "nat list"
  ks :: "nat list"
  has_residual :: bool
  deep_layers :: "nat list option"
  batch_norm :: bool
  loss_type :: string

text \<open>
  The dictionary of \<open>_initialize_weights\<close>. The embedding table and the prediction matrix
  are lists, so that their shapes are part of the model; the weights of the optional deep
  network are indexed by layer, row and column. \<open>bn_inference\<close> stands for what
  \<open>batch_norm_layer\<close> computes in inference for the layer of that index.
\<close>

record weights =
  feature_embeddings :: "real list list"
  prediction :: "real list"
  prediction_bias :: real
  layer_w :: "nat \<Rightarrow> nat \<Rightarrow> nat \<Rightarrow> real"
  layer_b :: "nat \<Rightarrow> nat \<Rightarrow> real"
  prediction_dense :: "nat \<Rightarrow> real"
  prediction_bias_dense :: real
  bn_inference :: "nat \<Rightarrow> real list \<Rightarrow> real list"

text \<open>
  \<open>_initialize_weights\<close>, with the random draws as a parameter: \<open>draws\<close> gives the value
  drawn for every position, and the function cuts the shapes the source asks for,
  \<open>[feature_size, embedding_size]\<close> for the table and \<open>[input_size, 1]\<close> with
  \<open>input_size = sum(self.block_shape)\<close> for \<open>prediction\<close>. \<open>self.deep_layers[0]\<close> raises on
  an empty list.
\<close>

record draws =
  draw_embedding :: "nat \<Rightarrow> nat \<Rightarrow> real"
  draw_prediction :: "nat \<Rightarrow> real"
  draw_rest :: weights

definition input_size :: "config \<Rightarrow> nat" where
  "input_size cfg = sum_list (block_shape cfg)"

definition initialize_weights :: "config \<Rightarrow> draws \<Rightarrow> error + weights" where
  "initialize_weights cfg D =
     (if deep_layers cfg = Some [] then Inl IndexError
      else Inr ((draw_rest D)
             \<lparr>feature_embeddings :=
                map (\<lambda>i. map (draw_embedding D i) [0..<embedding_size cfg]) [0..<feature_size cfg],
              prediction := map (draw_prediction D) [0..<input_size cfg]\<rparr>))"

text \<open>
  The embedding layer. \<open>tf.nn.embedding_lookup\<close> fails on an index outside the table.
  Rows are taken to hold \<open>field_size\<close> entries: a row of another length, which the
  \<open>reshape\<close> to \<open>[-1, field_size, 1]\<close> and the broadcast of the product would reject or
  reinterpret, is an error here. The result is the tensor before dropout.
\<close>

definition embedding_lookup :: "real list list \<Rightarrow> int \<Rightarrow> error + real list" where
  "embedding_lookup table idx =
     (if 0 \<le> idx \<and> nat idx < length table then Inr (table ! nat idx) else Inl InvalidArgument)"

definition embed_sample ::
  "real list list \<Rightarrow> nat \<Rightarrow> int list \<Rightarrow> real list \<Rightarrow> error + real list list" where
  "embed_sample table nfields idx_row val_row =
     (if length idx_row \<noteq> nfields \<or> length val_row \<noteq> nfields then Inl InvalidArgument
      else
        (case sequence_r (map (embedding_lookup table) idx_row) of
           Inl e \<Rightarrow> Inl e
         | Inr es \<Rightarrow> Inr (map2 (\<lambda>e v. map (\<lambda>x. x * v) e) es val_row)))"

definition embeddings ::
  "real list list \<Rightarrow> nat \<Rightarrow> int list list \<Rightarrow> real list list \<Rightarrow> error + real list list list" where
  "embeddings table nfields feat_index feat_value =
     (if length feat_index \<noteq> length feat_value then Inl InvalidArgument
      else sequence_r (map2 (embed_sample table nfields) feat_index feat_value))"

text \<open>Python's \<open>xs[i]\<close> for \<open>i \<ge> 0\<close>.\<close>

definition py_nth :: "'a list \<Rightarrow> nat \<Rightarrow> error + 'a" where
  "py_nth xs i = (if i < length xs then Inr (xs ! i) else Inl IndexError)"

text \<open>
  One pass of the inner loop (\<open>for j in range(self.field_size)\<close>): the query is field \<open>j\<close>
  of every sample and the values are its elementwise products with all the fields.
\<close>

definition field_attention ::
  "layer_vars \<Rightarrow> config \<Rightarrow> real list list list \<Rightarrow> nat \<Rightarrow> nat
     \<Rightarrow> error + real list list \<times> real list list" where
  "field_attention V cfg h i j =
     (case py_nth (block_shape cfg) i of
        Inl e \<Rightarrow> Inl e
      | Inr units \<Rightarrow>
          (case py_nth (ks cfg) i of
             Inl e \<Rightarrow> Inl e
           | Inr k \<Rightarrow>
               gat_attention V (map (\<lambda>hb. hb ! j) h)
                 (map (\<lambda>hb. map (\<lambda>row. map2 (\<lambda>a b. a * b) (hb ! j) row) hb) h)
                 (Some units) (heads cfg) k i j (has_residual cfg)))"

text \<open>
  \<open>tf.concat(state_list, axis=1)\<close>: from one \<open>[batch, 1, width]\<close> tensor per field to a
  \<open>[batch, field, width]\<close> tensor; on an empty list it raises.
\<close>

definition concat_fields :: "nat \<Rightarrow> 'a list list \<Rightarrow> error + 'a list list" where
  "concat_fields batch per_field =
     (if per_field = [] then Inl ValueError
      else Inr (map (\<lambda>b. map (\<lambda>r. r ! b) per_field) [0..<batch]))"

definition block_layer ::
  "layer_vars \<Rightarrow> config \<Rightarrow> real list list list \<Rightarrow> nat
     \<Rightarrow> error + real list list list \<times> real list list list" where
  "block_layer V cfg h i =
     (case sequence_r (map (field_attention V cfg h i) [0..<field_size cfg]) of
        Inl e \<Rightarrow> Inl e
      | Inr results \<Rightarrow>
          (case concat_fields (length h) (map fst results) of
             Inl e \<Rightarrow> Inl e
           | Inr h' \<Rightarrow>
               (case concat_fields (length h) (map snd results) of
                  Inl e \<Rightarrow> Inl e
                | Inr v \<Rightarrow> Inr (h', v))))"

text \<open>The outer loop \<open>for i in range(self.blocks)\<close>, over the list of its indices.\<close>

fun block_stack ::
  "layer_vars \<Rightarrow> config \<Rightarrow> nat list \<Rightarrow> real list list list
     \<Rightarrow> real list list list list \<Rightarrow> real list list list list
     \<Rightarrow> error + real list list list list \<times> real list list list list" where
  "block_stack V cfg [] h h_list v_list = Inr (h_list, v_list)"
| "block_stack V cfg (i # is) h h_list v_list =
     (case block_layer V cfg h i of
        Inl e \<Rightarrow> Inl e
      | Inr (h', v) \<Rightarrow> block_stack V cfg is h' (h_list @ [h']) (v_list @ [v]))"

text \<open>
  \<open>self.y_deep = tf.concat(h_list, axis=-1)\<close> and \<open>self.flat = tf.reduce_mean(self.y_deep,
  axis=1)\<close>: per sample and field the layers' outputs side by side, then the mean over the
  fields. \<open>tf.concat\<close> (and \<open>tf.stack\<close> for \<open>v_list\<close>) raises when there is no block.
\<close>

definition concat_layers :: "nat \<Rightarrow> config \<Rightarrow> real list list list list \<Rightarrow> real list list list" where
  "concat_layers batch cfg h_list =
     map (\<lambda>b. map (\<lambda>m. concat (map (\<lambda>h. h ! b ! m) h_list)) [0..<field_size cfg]) [0..<batch]"

definition mean_over_fields :: "real list list \<Rightarrow> real list" where
  "mean_over_fields rows =
     map (\<lambda>c. sum_list (map (\<lambda>r. r ! c) rows) / real (length rows)) [0..<length (hd rows)]"

definition flat ::
  "layer_vars \<Rightarrow> config \<Rightarrow> real list list list \<Rightarrow> error + real list list" where
  "flat V cfg emb =
     (case block_stack V cfg [0..<blocks cfg] emb [] [] of
        Inl e \<Rightarrow> Inl e
      | Inr (h_list, v_list) \<Rightarrow>
          if h_list = [] then Inl ValueError
          else Inr (map mean_over_fields (concat_layers (length emb) cfg h_list)))"

text \<open>The optional deep network on the flattened embeddings of one sample.\<close>

fun deep_tower :: "weights \<Rightarrow> bool \<Rightarrow> nat list \<Rightarrow> nat \<Rightarrow> real list \<Rightarrow> real list" where
  "deep_tower W bn [] i x = x"
| "deep_tower W bn (n # ns) i x =
     (let y = map (\<lambda>c. (\<Sum>r<length x. x ! r * layer_w W i r c) + layer_b W i c) [0..<n];
          y1 = (if bn then bn_inference W i y else y)
      in deep_tower W bn ns (i + 1) (map relu y1))"

definition y_dense :: "weights \<Rightarrow> config \<Rightarrow> nat list \<Rightarrow> real list list \<Rightarrow> real" where
  "y_dense W cfg layers emb_b =
     (let x = deep_tower W (batch_norm cfg) layers 0 (concat emb_b)
      in (\<Sum>r<length x. x ! r * prediction_dense W r) + prediction_bias_dense W)"

text \<open>
  \<open>self.out\<close> before the loss block: \<open>tf.matmul(self.flat, self.weights["prediction"])\<close>
  needs the width of \<open>flat\<close> to be the number of rows of \<open>prediction\<close>; the deep logit is
  added when \<open>deep_layers\<close> is not \<open>None\<close>.
\<close>

definition logits ::
  "config \<Rightarrow> weights \<Rightarrow> layer_vars \<Rightarrow> int list list \<Rightarrow> real list list \<Rightarrow> error + real list" where
  "logits cfg W V feat_index feat_value =
     (case embeddings (feature_embeddings W) (field_size cfg) feat_index feat_value of
        Inl e \<Rightarrow> Inl e
      | Inr emb \<Rightarrow>
          (case flat V cfg emb of
             Inl e \<Rightarrow> Inl e
           | Inr fl \<Rightarrow>
               if \<exists>f \<in> set fl. length f \<noteq> length (prediction W) then Inl InvalidArgument
               else Inr (map2 (\<lambda>f emb_b.
                           sum_list (map2 (\<lambda>a b. a * b) f (prediction W)) + prediction_bias W +
                           (case deep_layers cfg of None \<Rightarrow> 0
                            | Some layers \<Rightarrow> y_dense W cfg layers emb_b))
                         fl emb)))"

text \<open>
  The loss block changes \<open>self.out\<close> only for \<open>loss_type == "logloss"\<close>, where it becomes
  its sigmoid; \<open>sess_run_out\<close> is what \<open>self.sess.run(self.out, feed_dict)\<close> returns for
  the index and value rows of a batch, as one number per sample.
\<close>

definition output_activation :: "string \<Rightarrow> real \<Rightarrow> real" where
  "output_activation lt x = (if lt = ''logloss'' then sigmoid x else x)"

definition sess_run_out ::
  "config \<Rightarrow> weights \<Rightarrow> layer_vars \<Rightarrow> int list list \<Rightarrow> real list list \<Rightarrow> error + real list" where
  "sess_run_out cfg W V feat_index feat_value =
     (case logits cfg W V feat_index feat_value of
        Inl e \<Rightarrow> Inl e
      | Inr ls \<Rightarrow> Inr (map (output_activation (loss_type cfg)) ls))"

section \<open>Verified properties\<close>

subsection \<open>The prediction loop\<close>


lemma slice_len: "length (py_slice xs s e) = min e (length xs) - s"
  by (auto simp: py_slice_def)

lemma slice_Nil: "py_slice xs s e = [] \<longleftrightarrow> min e (length xs) \<le> s"
  by (auto simp: py_slice_def)

lemma batch_rows_len:
  "length (batch_rows n bs j xs) = min (min ((j + 1) * bs) n) (length xs) - j * bs"
  by (simp add: batch_rows_def slice_len)

lemma get_batch_eq:
  "get_batch Xi Xv y bs i =
     (batch_rows (length y) bs i Xi, batch_rows (length y) bs i Xv,
      map (\<lambda>v. [v]) (batch_rows (length y) bs i y))"
  by (auto simp: get_batch_def batch_rows_def Let_def min_def)

lemma num_batches_iff: "0 < bs \<Longrightarrow> (i::nat) < num_batches n bs \<longleftrightarrow> i * bs < n"
proof -
  assume bs: "0 < bs"
  have "i < (n + bs - 1) div bs \<longleftrightarrow> Suc i \<le> (n + bs - 1) div bs" by arith
  also have "\<dots> \<longleftrightarrow> Suc i * bs \<le> n + bs - 1"
    using bs by (simp only: less_eq_div_iff_mult_less_eq)
  also have "\<dots> \<longleftrightarrow> i * bs < n" using bs by (cases bs) auto
  finally show ?thesis by (simp add: num_batches_def)
qed

lemma predict_loop_stop:
  assumes "length dummy_y = length Xi" "\<not> i * bs < length Xi"
  shows "predict_loop run Xi Xv dummy_y bs i y_pred = Inr y_pred"
  apply (subst predict_loop.simps)
  using assms by (simp add: get_batch_eq batch_rows_def slice_Nil)

lemma predict_loop_step:
  assumes len: "length dummy_y = length Xi" and lt: "i * bs < length Xi" and bs: "0 < bs"
    and ys: "run (batch_rows (length Xi) bs i Xi) (batch_rows (length Xi) bs i Xv) = Inr ys"
    and lys: "length ys = length (batch_rows (length Xi) bs i Xi)"
  shows "predict_loop run Xi Xv dummy_y bs i y_pred =
     (if i = 0 then predict_loop run Xi Xv dummy_y bs (i + 1) (Some ys)
      else case y_pred of None \<Rightarrow> Inl ValueError
           | Some acc \<Rightarrow> predict_loop run Xi Xv dummy_y bs (i + 1) (Some (acc @ ys)))"
proof -
  have pos: "0 < length (batch_rows (length Xi) bs i Xi)"
    using lt bs by (simp add: batch_rows_len min_def)
  have l2: "length (batch_rows (length Xi) bs i dummy_y) = length (batch_rows (length Xi) bs i Xi)"
    by (simp add: batch_rows_len len)
  show ?thesis
    apply (subst predict_loop.simps)
    using pos ys lys l2
    by (simp add: get_batch_eq len np_concatenate_def split: option.splits)
qed

lemma predict_loop_run:
  assumes bs: "0 < bs" and len: "length dummy_y = length Xi"
    and ok: "session_ok run Xi Xv bs"
    and st: "i = 0 \<or> y_pred = Some acc"
    and k: "k = num_batches (length Xi) bs - i"
  shows "predict_loop run Xi Xv dummy_y bs i y_pred =
     Inr (if i < num_batches (length Xi) bs
          then Some ((if i = 0 then [] else acc) @
                 concat (map (batch_outputs run Xi Xv bs) [i..<num_batches (length Xi) bs]))
          else y_pred)"
  using st k
proof (induction k arbitrary: i y_pred acc)
  case 0
  then have "\<not> i < num_batches (length Xi) bs" by simp
  then show ?case using predict_loop_stop[OF len] num_batches_iff[OF bs] by simp
next
  case (Suc k)
  then have lt: "i < num_batches (length Xi) bs" by simp
  then have lt': "i * bs < length Xi" using num_batches_iff[OF bs] by simp
  obtain ys where ys: "run (batch_rows (length Xi) bs i Xi) (batch_rows (length Xi) bs i Xv) = Inr ys"
       and lys: "length ys = length (batch_rows (length Xi) bs i Xi)"
    using ok lt unfolding session_ok_def by blast
  have bo: "batch_outputs run Xi Xv bs i = ys" by (simp add: batch_outputs_def ys)
  have k': "k = num_batches (length Xi) bs - (i + 1)" using Suc.prems by simp
  have up: "[i..<num_batches (length Xi) bs] = i # [i + 1..<num_batches (length Xi) bs]"
    using lt by (simp add: upt_conv_Cons)
  have step: "predict_loop run Xi Xv dummy_y bs i y_pred =
      predict_loop run Xi Xv dummy_y bs (i + 1) (Some ((if i = 0 then [] else acc) @ ys))"
    using predict_loop_step[where run = run and Xv = Xv and y_pred = y_pred, OF len lt' bs ys lys]
      Suc.prems(1) by auto
  have IH: "predict_loop run Xi Xv dummy_y bs (i + 1) (Some ((if i = 0 then [] else acc) @ ys)) =
     Inr (if i + 1 < num_batches (length Xi) bs
          then Some ((if i + 1 = 0 then [] else (if i = 0 then [] else acc) @ ys) @
                 concat (map (batch_outputs run Xi Xv bs) [i + 1..<num_batches (length Xi) bs]))
          else Some ((if i = 0 then [] else acc) @ ys))"
    by (rule Suc.IH[OF _ k']) simp
  have emp: "\<not> i + 1 < num_batches (length Xi) bs \<Longrightarrow> [i + 1..<num_batches (length Xi) bs] = []"
    by simp
  show ?case
    unfolding step IH using lt emp by (simp add: up bo del: upt_Suc)
qed


lemma predict_run:
  assumes bs: "0 < bs" and ok: "session_ok run Xi Xv bs"
  shows "predict run Xi Xv bs =
     Inr (if Xi = [] then None
          else Some (concat (map (batch_outputs run Xi Xv bs) [0..<num_batches (length Xi) bs])))"
proof -
  have "0 < num_batches (length Xi) bs \<longleftrightarrow> Xi \<noteq> []"
    using num_batches_iff[OF bs, of 0 "length Xi"] by simp
  then show ?thesis
    unfolding predict_def Let_def
    using predict_loop_run[OF bs _ ok, of "replicate (length Xi) 1" 0 None undefined, OF _ _ refl]
    by auto
qed


subsection \<open>Early stopping\<close>


lemma last_five:
  assumes "length xs > 5"
  shows "drop (length xs - 5) xs =
     [from_end xs 5, from_end xs 4, from_end xs 3, from_end xs 2, from_end xs 1]"
proof (rule nth_equalityI)
  show "length (drop (length xs - 5) xs) =
     length [from_end xs 5, from_end xs 4, from_end xs 3, from_end xs 2, from_end xs 1]"
    using assms by simp
next
  fix i assume "i < length (drop (length xs - 5) xs)"
  then have "i < 5" using assms by simp
  then consider "i = 0" | "i = 1" | "i = 2" | "i = 3" | "i = 4" by linarith
  moreover have "length xs - 5 + 1 = length xs - 4" "length xs - 5 + 2 = length xs - 3"
    "length xs - 5 + 3 = length xs - 2" "length xs - 5 + 4 = length xs - 1"
    using assms by simp_all
  ultimately show "drop (length xs - 5) xs ! i =
     [from_end xs 5, from_end xs 4, from_end xs 3, from_end xs 2, from_end xs 1] ! i"
    using assms by cases (simp_all add: from_end_def del: One_nat_def)
qed


lemma tt_True:
  "training_termination True xs \<longleftrightarrow>
     length xs > 5 \<and> sorted_wrt (>) (drop (length xs - 5) xs)"
  by (cases "length xs > 5") (auto simp: training_termination_def last_five)


subsection \<open>Evaluation\<close>


lemma np_clip_range:
  "lo \<le> hi \<Longrightarrow> p \<in> set (np_clip ys lo hi) \<Longrightarrow> lo \<le> p \<and> p \<le> hi"
  by (auto simp: np_clip_def)

lemma evaluate_Some:
  "predict run Xi Xv bs = Inr (Some ys) \<Longrightarrow>
   evaluate em ll run Xi Xv y bs =
     (case em y (np_clip ys (1 / 10 ^ 6) (1 - 1 / 10 ^ 6)) of
        Inl e \<Rightarrow> Inl e
      | Inr result \<Rightarrow>
          (case ll y (np_clip ys (1 / 10 ^ 6) (1 - 1 / 10 ^ 6)) of
             Inl e \<Rightarrow> Inl e
           | Inr loss \<Rightarrow> Inr (result, loss)))"
  by (simp only: evaluate_def Let_def sum.case option.case)

lemma evaluate_cong_clipped:
  assumes "\<And>ps. \<forall>p \<in> set ps. 1 / 10 ^ 6 \<le> p \<and> p \<le> 1 - 1 / 10 ^ 6 \<Longrightarrow>
              em y ps = em' y ps \<and> ll y ps = ll' y ps"
  shows "evaluate em ll run Xi Xv y bs = evaluate em' ll' run Xi Xv y bs"
proof (cases "predict run Xi Xv bs")
  case (Inl e)
  then show ?thesis by (simp add: evaluate_def)
next
  case (Inr r)
  show ?thesis
  proof (cases r)
    case None
    then show ?thesis using Inr by (simp add: evaluate_def)
  next
    case (Some ys)
    have "\<forall>p \<in> set (np_clip ys (1 / 10 ^ 6) (1 - 1 / 10 ^ 6)). 1 / 10 ^ 6 \<le> p \<and> p \<le> 1 - 1 / 10 ^ 6"
      using np_clip_range[of "1 / 10 ^ 6" "1 - 1 / 10 ^ 6"] by auto
    from assms[OF this] show ?thesis
      unfolding Some[symmetric] by (simp only: evaluate_def Let_def Inr Some sum.case option.case)
  qed
qed



subsection \<open>Claims about the training and prediction loops\<close>


lemma session_ok_const: "0 < bs \<Longrightarrow> session_ok (\<lambda>xi xv. Inr (map f xi)) Xi Xv bs"
  by (simp add: session_ok_def)





text \<open>
  Claim C10. Whenever \<open>predict\<close> returns predictions, \<open>evaluate\<close> hands both metrics the
  predictions clipped to \<open>[1e-6, 1 - 1e-6]\<close>: every value they receive lies in that interval,
  so it is neither 0 nor 1 and both \<open>p\<close> and \<open>1 - p\<close> are positive (their logarithms exist).
  Hence two pairs of metrics that agree on all prediction vectors inside the interval give
  the same result of \<open>evaluate\<close>, whatever the session (and so the loss type) is.
\<close>

theorem evaluate_clips_predictions:
  "(predict run Xi Xv bs = Inr (Some ys) \<longrightarrow>
      evaluate em ll run Xi Xv y bs =
        (case em y (np_clip ys (1 / 10 ^ 6) (1 - 1 / 10 ^ 6)) of
           Inl e \<Rightarrow> Inl e
         | Inr result \<Rightarrow>
             (case ll y (np_clip ys (1 / 10 ^ 6) (1 - 1 / 10 ^ 6)) of
                Inl e \<Rightarrow> Inl e
              | Inr loss \<Rightarrow> Inr (result, loss))))
   \<and> (\<forall>p \<in> set (np_clip ys (1 / 10 ^ 6) (1 - 1 / 10 ^ 6)).
          1 / 10 ^ 6 \<le> p \<and> p \<le> 1 - 1 / 10 ^ 6 \<and> p \<noteq> 0 \<and> p \<noteq> 1 \<and> 0 < p \<and> 0 < 1 - p)
   \<and> ((\<forall>ps. (\<forall>p \<in> set ps. 1 / 10 ^ 6 \<le> p \<and> p \<le> 1 - 1 / 10 ^ 6) \<longrightarrow>
              em y ps = em' y ps \<and> ll y ps = ll' y ps) \<longrightarrow>
        evaluate em ll run Xi Xv y bs = evaluate em' ll' run Xi Xv y bs)"
proof (intro conjI impI ballI)
  assume "predict run Xi Xv bs = Inr (Some ys)"
  then show "evaluate em ll run Xi Xv y bs =
        (case em y (np_clip ys (1 / 10 ^ 6) (1 - 1 / 10 ^ 6)) of
           Inl e \<Rightarrow> Inl e
         | Inr result \<Rightarrow>
             (case ll y (np_clip ys (1 / 10 ^ 6) (1 - 1 / 10 ^ 6)) of
                Inl e \<Rightarrow> Inl e
              | Inr loss \<Rightarrow> Inr (result, loss)))"
    by (rule evaluate_Some)
next
  fix p assume p: "p \<in> set (np_clip ys (1 / 10 ^ 6) (1 - 1 / 10 ^ 6))"
  have r: "1 / 10 ^ 6 \<le> p \<and> p \<le> 1 - 1 / 10 ^ 6"
    using np_clip_range[OF _ p] by simp
  then show "1 / 10 ^ 6 \<le> p" "p \<le> 1 - 1 / 10 ^ 6" by simp_all
  from r show "p \<noteq> 0" "p \<noteq> 1" "0 < p" "0 < 1 - p" by auto
next
  assume "\<forall>ps. (\<forall>p \<in> set ps. 1 / 10 ^ 6 \<le> p \<and> p \<le> 1 - 1 / 10 ^ 6) \<longrightarrow>
              em y ps = em' y ps \<and> ll y ps = ll' y ps"
  then show "evaluate em ll run Xi Xv y bs = evaluate em' ll' run Xi Xv y bs"
    using evaluate_cong_clipped[of em y em' ll ll' run Xi Xv bs] by blast
qed

theorem evaluate_clips_predictions_witness:
  "predict (\<lambda>xi xv. Inr (map real xi)) [0, 1, 7] [1, 1, 1::real] 2 = Inr (Some [0, 1, 7])
   \<and> np_clip [0, 1, 7] (1 / 10 ^ 6) (1 - 1 / 10 ^ 6) = [1 / 10 ^ 6, 1 - 1 / 10 ^ 6, 1 - 1 / 10 ^ 6]
   \<and> evaluate (\<lambda>y ps. Inr (hd ps)) (\<lambda>y ps. if 0 \<in> set ps \<or> 1 \<in> set ps then Inl ValueError else Inr (sum_list ps))
        (\<lambda>xi xv. Inr (map real xi)) [0, 1, 7] [1, 1, 1::real] [0, 0, 1::nat] 2
      = Inr (1 / 10 ^ 6, 2 - 1 / 10 ^ 6)
   \<and> evaluate (\<lambda>y ps. Inr (hd ps)) (\<lambda>y ps. if 0 \<in> set ps \<or> 1 \<in> set ps then Inl ValueError else Inr (sum_list ps))
        (\<lambda>xi xv. Inr (map real xi)) [0, 1, 7] [1, 1, 1::real] [0, 0, 1::nat] 2
      = evaluate (\<lambda>y ps. Inr (hd ps)) (\<lambda>y ps. Inr (sum_list ps))
        (\<lambda>xi xv. Inr (map real xi)) [0, 1, 7] [1, 1, 1::real] [0, 0, 1::nat] 2"
proof -
  have p: "predict (\<lambda>xi xv. Inr (map real xi)) [0, 1, 7] [1, 1, 1::real] 2 = Inr (Some [0, 1, 7])"
    by (simp add: predict_run session_ok_const num_batches_def batch_outputs_def
          batch_rows_def py_slice_def upt_rec)
  have c: "np_clip [0, 1, 7] (1 / 10 ^ 6) (1 - 1 / 10 ^ 6) = [1 / 10 ^ 6, 1 - 1 / 10 ^ 6, 1 - 1 / 10 ^ 6]"
    by (simp add: np_clip_def)
  have out: "0 \<notin> set ps \<and> 1 \<notin> set ps"
    if "\<forall>p \<in> set ps. 1 / 10 ^ 6 \<le> p \<and> p \<le> 1 - 1 / 10 ^ 6" for ps :: "real list"
  proof -
    have "\<not> 1 / 10 ^ 6 \<le> (0::real)" by simp
    moreover have "\<not> (1::real) \<le> 1 - 1 / 10 ^ 6" by simp
    ultimately show ?thesis using that by blast
  qed
  have agree: "\<forall>ps. (\<forall>p \<in> set ps. 1 / 10 ^ 6 \<le> p \<and> p \<le> 1 - 1 / 10 ^ 6) \<longrightarrow>
      (Inr (hd ps) :: error + real) = Inr (hd ps) \<and>
      (if 0 \<in> set ps \<or> 1 \<in> set ps then Inl ValueError else Inr (sum_list ps)) = Inr (sum_list ps)"
    using out by simp
  note T = evaluate_clips_predictions[of "\<lambda>xi xv. Inr (map real xi)" "[0, 1, 7]" "[1, 1, 1::real]" 2
        "[0, 1, 7]" "\<lambda>y ps. Inr (hd ps)"
        "\<lambda>y ps. if 0 \<in> set ps \<or> 1 \<in> set ps then Inl ValueError else Inr (sum_list ps)"
        "[0, 0, 1::nat]" "\<lambda>y ps. Inr (hd ps)" "\<lambda>y ps. Inr (sum_list ps)"]
  have e1: "evaluate (\<lambda>y ps. Inr (hd ps))
        (\<lambda>y ps. if 0 \<in> set ps \<or> 1 \<in> set ps then Inl ValueError else Inr (sum_list ps))
        (\<lambda>xi xv. Inr (map real xi)) [0, 1, 7] [1, 1, 1::real] [0, 0, 1::nat] 2
      = Inr (1 / 10 ^ 6, 2 - 1 / 10 ^ 6)"
    using T p unfolding c by simp
  have e2: "evaluate (\<lambda>y ps. Inr (hd ps))
        (\<lambda>y ps. if 0 \<in> set ps \<or> 1 \<in> set ps then Inl ValueError else Inr (sum_list ps))
        (\<lambda>xi xv. Inr (map real xi)) [0, 1, 7] [1, 1, 1::real] [0, 0, 1::nat] 2
      = evaluate (\<lambda>y ps. Inr (hd ps)) (\<lambda>y ps. Inr (sum_list ps))
        (\<lambda>xi xv. Inr (map real xi)) [0, 1, 7] [1, 1, 1::real] [0, 0, 1::nat] 2"
    using T agree by blast
  show ?thesis using p c e1 e2 by blast
qed


end
